theory Spec2Isabelle
  imports Complex_Main
begin

section \<open>Values, errors and the loaded tables\<close>

text \<open>
  A cell of a pandas frame is an \<open>option\<close>: \<open>None\<close> is the missing value (NaN for a
  number or a string column, NaT for a timestamp). A frame is the list of its rows, in row
  order; a row is a record with one field per column the code reads. Fields of different
  tables that share a column name carry a prefix (\<open>o_\<close>, \<open>i_\<close>, \<open>r_\<close>, ...).

  Numbers that pandas holds as floats (days, prices, coordinates, distances) are exact
  rationals here: the claims below are about signs, null values and the structure of joins,
  not about rounding.
\<close>

datatype error =
    FileNotFoundError string
  | CsvError string
  | DateParseError string

definition ebind :: "error + 'a \<Rightarrow> ('a \<Rightarrow> error + 'b) \<Rightarrow> error + 'b" where
  "ebind m f = (case m of Inl e \<Rightarrow> Inl e | Inr x \<Rightarrow> f x)"

text \<open>A timestamp is the number of nanoseconds since the epoch, as in \<open>datetime64[ns]\<close>.\<close>

type_synonym timestamp = int

record order_row =
  o_order_id :: "string option"
  o_customer_id :: "string option"
  order_status :: "string option"
  order_purchase_timestamp :: "string option"
  order_delivered_customer_date :: "string option"
  order_estimated_delivery_date :: "string option"

record item_row =
  i_order_id :: "string option"
  order_item_id :: "int option"
  i_product_id :: "string option"
  i_seller_id :: "string option"
  i_price :: "rat option"
  i_freight_value :: "rat option"

record review_row =
  r_review_id :: "string option"
  r_order_id :: "string option"
  r_review_score :: "int option"

record seller_row =
  s_seller_id :: "string option"
  seller_zip_code_prefix :: "int option"
  seller_city :: "string option"
  seller_state :: "string option"

record customer_row =
  c_customer_id :: "string option"
  customer_zip_code_prefix :: "int option"
  customer_city :: "string option"
  customer_state :: "string option"

record geo_row =
  geolocation_zip_code_prefix :: "int option"
  geolocation_lat :: "rat option"
  geolocation_lng :: "rat option"
  geolocation_city :: "string option"
  geolocation_state :: "string option"

text \<open>
  The dictionary \<open>self.data\<close> of \<open>Order\<close>, restricted to the six entries the methods
  read: \<open>data['orders']\<close>, \<open>data['order_items']\<close>, \<open>data['order_reviews']\<close>,
  \<open>data['sellers']\<close>, \<open>data['customers']\<close>, \<open>data['geolocation']\<close>.
\<close>

record dataset =
  orders :: "order_row list"
  order_items :: "item_row list"
  order_reviews :: "review_row list"
  sellers :: "seller_row list"
  customers :: "customer_row list"
  geolocation :: "geo_row list"

section \<open>Order.get_wait_time\<close>

text \<open>
  \<open>pd.to_datetime\<close> on a column: a missing cell becomes NaT, every other cell goes
  through the library's parser, which is a parameter \<open>parse\<close> here (it returns the
  timestamp, NaT, or the error it raises). The first cell that fails raises for the whole
  column.
\<close>

definition parse_cell :: "(string \<Rightarrow> error + timestamp option) \<Rightarrow> string option
    \<Rightarrow> error + timestamp option" where
  "parse_cell parse c = (case c of None \<Rightarrow> Inr None | Some s \<Rightarrow> parse s)"

fun to_datetime :: "(string \<Rightarrow> error + timestamp option) \<Rightarrow> string option list
    \<Rightarrow> error + timestamp option list" where
  "to_datetime parse [] = Inr []"
| "to_datetime parse (c # cs) =
     ebind (parse_cell parse c) (\<lambda>t. ebind (to_datetime parse cs) (\<lambda>ts. Inr (t # ts)))"

text \<open>\<open>datetime.timedelta(days = 1)\<close>, in nanoseconds.\<close>

definition one_day_delta :: int where
  "one_day_delta = 86400000000000"

text \<open>Difference of two timestamp cells: NaT as soon as one of them is NaT.\<close>

fun timestamp_sub :: "timestamp option \<Rightarrow> timestamp option \<Rightarrow> int option" where
  "timestamp_sub (Some a) (Some b) = Some (a - b)"
| "timestamp_sub _ _ = None"

text \<open>A timedelta cell divided by \<open>one_day_delta\<close>: fractional days, NaN for NaT.\<close>

definition in_days :: "int option \<Rightarrow> rat option" where
  "in_days d = map_option (\<lambda>ns. of_int ns / of_int one_day_delta) d"

text \<open>The comparison \<open>delay < 0\<close> on a float cell: false when the cell is NaN.\<close>

fun float_less :: "rat option \<Rightarrow> rat \<Rightarrow> bool" where
  "float_less None y = False"
| "float_less (Some x) y = (x < y)"

definition absolute_delay :: "rat option \<Rightarrow> rat option" where
  "absolute_delay delay = (if float_less delay 0 then map_option abs delay else Some 0)"

record wait_time_row =
  w_order_id :: "string option"
  wait_time :: "rat option"
  expected_wait_time :: "rat option"
  delay_vs_expected :: "rat option"

definition wait_time_of ::
    "order_row \<times> timestamp option \<times> timestamp option \<times> timestamp option \<Rightarrow> wait_time_row" where
  "wait_time_of x = (case x of (ord, purchase, delivered, estimated) \<Rightarrow>
     \<lparr> w_order_id = o_order_id ord,
       wait_time = in_days (timestamp_sub delivered purchase),
       expected_wait_time = in_days (timestamp_sub estimated purchase),
       delay_vs_expected = absolute_delay (in_days (timestamp_sub estimated delivered)) \<rparr>)"

text \<open>
  The rows \<open>get_wait_time\<close> works on: \<open>orders.query("order_status == 'delivered'")\<close>
  when \<open>is_delivered\<close>, all of \<open>data['orders']\<close> otherwise.
\<close>

definition wait_time_orders :: "dataset \<Rightarrow> bool \<Rightarrow> order_row list" where
  "wait_time_orders data is_delivered =
     (if is_delivered then filter (\<lambda>ord. order_status ord = Some ''delivered'') (orders data)
      else orders data)"

definition get_wait_time ::
    "(string \<Rightarrow> error + timestamp option) \<Rightarrow> dataset \<Rightarrow> bool \<Rightarrow> error + wait_time_row list" where
  "get_wait_time parse data is_delivered =
     (let rows = wait_time_orders data is_delivered in
      ebind (to_datetime parse (map order_purchase_timestamp rows)) (\<lambda>purchase.
      ebind (to_datetime parse (map order_delivered_customer_date rows)) (\<lambda>delivered.
      ebind (to_datetime parse (map order_estimated_delivery_date rows)) (\<lambda>estimated.
      Inr (map wait_time_of (zip rows (zip purchase (zip delivered estimated))))))))"

section \<open>Group-by, null handling and merges\<close>

text \<open>\<open>dropna\<close> on a list of cells: the values that are present, in order.\<close>

fun dropna_cells :: "'a option list \<Rightarrow> 'a list" where
  "dropna_cells [] = []"
| "dropna_cells (None # cs) = dropna_cells cs"
| "dropna_cells (Some x # cs) = x # dropna_cells cs"

text \<open>The distinct values of a list, each at its first occurrence.\<close>

fun unique :: "'a list \<Rightarrow> 'a list" where
  "unique [] = []"
| "unique (x # xs) = x # unique (filter (\<lambda>y. y \<noteq> x) xs)"

text \<open>
  \<open>groupby(key)\<close>: one group per distinct non-null key (rows whose key is missing belong
  to no group), and the rows of a group in their order in the frame. pandas lists the groups
  in sorted key order; here they stand in order of first occurrence. Every frame built from
  a group-by below has one row per key and is only ever the right side of a merge, so the
  order of its rows (also the order \<open>sort_values\<close> gives to rows with equal counts) is not
  visible in any result.
\<close>

definition group_keys :: "('r \<Rightarrow> 'k option) \<Rightarrow> 'r list \<Rightarrow> 'k list" where
  "group_keys key rows = unique (dropna_cells (map key rows))"

definition group_rows :: "('r \<Rightarrow> 'k option) \<Rightarrow> 'r list \<Rightarrow> 'k \<Rightarrow> 'r list" where
  "group_rows key rows k = filter (\<lambda>r. key r = Some k) rows"

text \<open>\<open>GroupBy.first\<close> on one column of a group: the first value that is not missing.\<close>

fun first_non_null :: "'a option list \<Rightarrow> 'a option" where
  "first_non_null [] = None"
| "first_non_null (None # cs) = first_non_null cs"
| "first_non_null (Some x # cs) = Some x"

text \<open>\<open>mean\<close> on one column of a group: missing values are skipped, NaN when none is left.\<close>

definition mean_cells :: "rat option list \<Rightarrow> rat option" where
  "mean_cells cs =
     (let xs = dropna_cells cs in
      if xs = [] then None else Some (sum_list xs / of_nat (length xs)))"

text \<open>
  \<open>merge\<close>: a merged row is the pair of the two rows it comes from; keys are compared as
  cells, so a missing key matches a missing key, as in pandas. The inner and the left merge
  keep the order of the left rows; for the outer merge pandas sorts the result by key, which
  is left out here (the matching table is only read through an inner merge and a mean per
  group).
\<close>

definition merge_inner :: "('a \<Rightarrow> 'k) \<Rightarrow> ('b \<Rightarrow> 'k) \<Rightarrow> 'a list \<Rightarrow> 'b list \<Rightarrow> ('a \<times> 'b) list" where
  "merge_inner kl kr left right =
     concat (map (\<lambda>l. map (Pair l) (filter (\<lambda>r. kr r = kl l) right)) left)"

definition merge_left :: "('a \<Rightarrow> 'k) \<Rightarrow> ('b \<Rightarrow> 'k) \<Rightarrow> 'a list \<Rightarrow> 'b list
    \<Rightarrow> ('a \<times> 'b option) list" where
  "merge_left kl kr left right =
     concat (map (\<lambda>l. case filter (\<lambda>r. kr r = kl l) right of
                         [] \<Rightarrow> [(l, None)]
                       | rs \<Rightarrow> map (\<lambda>r. (l, Some r)) rs) left)"

definition merge_outer :: "('a \<Rightarrow> 'k) \<Rightarrow> ('b \<Rightarrow> 'k) \<Rightarrow> 'a list \<Rightarrow> 'b list
    \<Rightarrow> ('a option \<times> 'b option) list" where
  "merge_outer kl kr left right =
     concat (map (\<lambda>l. case filter (\<lambda>r. kr r = kl l) right of
                         [] \<Rightarrow> [(Some l, None)]
                       | rs \<Rightarrow> map (\<lambda>r. (Some l, Some r)) rs) left)
     @ map (\<lambda>r. (None, Some r)) (filter (\<lambda>r. kr r \<notin> set (map kl left)) right)"

section \<open>Order.get_review_score\<close>

definition dim_five_star :: "int option \<Rightarrow> int" where
  "dim_five_star score = (if score = Some 5 then 1 else 0)"

definition dim_one_star :: "int option \<Rightarrow> int" where
  "dim_one_star score = (if score = Some 1 then 1 else 0)"

record review_score_row =
  rs_order_id :: "string option"
  dim_is_five_star :: int
  dim_is_one_star :: int
  review_score :: "int option"

definition get_review_score :: "dataset \<Rightarrow> review_score_row list" where
  "get_review_score data =
     map (\<lambda>rv. \<lparr> rs_order_id = r_order_id rv,
                  dim_is_five_star = dim_five_star (r_review_score rv),
                  dim_is_one_star = dim_one_star (r_review_score rv),
                  review_score = r_review_score rv \<rparr>) (order_reviews data)"

section \<open>Order.get_number_products, get_number_sellers, get_price_and_freight\<close>

record number_products_row =
  np_order_id :: "string option"
  number_of_products :: nat

text \<open>
  \<open>groupby("order_id").count()\<close> counts, column by column, the cells of the group that are
  not missing; the column kept is \<open>order_item_id\<close>.
\<close>

definition get_number_products :: "dataset \<Rightarrow> number_products_row list" where
  "get_number_products data =
     sort_key number_of_products
       (map (\<lambda>k. \<lparr> np_order_id = Some k,
                   number_of_products =
                     length (dropna_cells (map order_item_id
                       (group_rows i_order_id (order_items data) k))) \<rparr>)
            (group_keys i_order_id (order_items data)))"

record number_sellers_row =
  ns_order_id :: "string option"
  number_of_sellers :: nat

text \<open>\<open>nunique\<close>: the number of distinct values of the group that are not missing.\<close>

definition get_number_sellers :: "dataset \<Rightarrow> number_sellers_row list" where
  "get_number_sellers data =
     sort_key number_of_sellers
       (map (\<lambda>k. \<lparr> ns_order_id = Some k,
                   number_of_sellers =
                     length (unique (dropna_cells (map i_seller_id
                       (group_rows i_order_id (order_items data) k)))) \<rparr>)
            (group_keys i_order_id (order_items data)))"

record price_freight_row =
  pf_order_id :: "string option"
  price :: rat
  freight_value :: rat

text \<open>\<open>sum\<close> skips the missing cells of a group (and is 0 when none is left).\<close>

definition get_price_and_freight :: "dataset \<Rightarrow> price_freight_row list" where
  "get_price_and_freight data =
     map (\<lambda>k. \<lparr> pf_order_id = Some k,
                 price = sum_list (dropna_cells (map i_price
                   (group_rows i_order_id (order_items data) k))),
                 freight_value = sum_list (dropna_cells (map i_freight_value
                   (group_rows i_order_id (order_items data) k))) \<rparr>)
         (group_keys i_order_id (order_items data))"

section \<open>Olist.get_matching_table\<close>

text \<open>
  The frame after the first merge, \<open>orders[['customer_id', 'order_id']]\<close> with
  \<open>reviews[['order_id', 'review_id']]\<close>: the key column \<open>order_id\<close> comes from whichever
  side has the row, the columns of a side without a row are missing.
\<close>

record order_review_row =
  or_customer_id :: "string option"
  or_order_id :: "string option"
  or_review_id :: "string option"

fun order_review :: "order_row option \<times> review_row option \<Rightarrow> order_review_row" where
  "order_review (Some ord, Some rv) =
     \<lparr> or_customer_id = o_customer_id ord, or_order_id = o_order_id ord,
       or_review_id = r_review_id rv \<rparr>"
| "order_review (Some ord, None) =
     \<lparr> or_customer_id = o_customer_id ord, or_order_id = o_order_id ord,
       or_review_id = None \<rparr>"
| "order_review (None, Some rv) =
     \<lparr> or_customer_id = None, or_order_id = r_order_id rv,
       or_review_id = r_review_id rv \<rparr>"
| "order_review (None, None) =
     \<lparr> or_customer_id = None, or_order_id = None, or_review_id = None \<rparr>"

record matching_row =
  m_customer_id :: "string option"
  m_order_id :: "string option"
  m_review_id :: "string option"
  m_product_id :: "string option"
  m_seller_id :: "string option"

fun order_review_item :: "order_review_row option \<times> item_row option \<Rightarrow> matching_row" where
  "order_review_item (Some x, Some it) =
     \<lparr> m_customer_id = or_customer_id x, m_order_id = or_order_id x,
       m_review_id = or_review_id x, m_product_id = i_product_id it,
       m_seller_id = i_seller_id it \<rparr>"
| "order_review_item (Some x, None) =
     \<lparr> m_customer_id = or_customer_id x, m_order_id = or_order_id x,
       m_review_id = or_review_id x, m_product_id = None, m_seller_id = None \<rparr>"
| "order_review_item (None, Some it) =
     \<lparr> m_customer_id = None, m_order_id = i_order_id it, m_review_id = None,
       m_product_id = i_product_id it, m_seller_id = i_seller_id it \<rparr>"
| "order_review_item (None, None) =
     \<lparr> m_customer_id = None, m_order_id = None, m_review_id = None,
       m_product_id = None, m_seller_id = None \<rparr>"

text \<open>The argument is the dictionary that \<open>self.get_data()\<close> returned.\<close>

definition get_matching_table :: "dataset \<Rightarrow> matching_row list" where
  "get_matching_table data =
     map order_review_item
       (merge_outer or_order_id i_order_id
         (map order_review (merge_outer o_order_id r_order_id (orders data) (order_reviews data)))
         (order_items data))"

section \<open>Order.get_distance_seller_customer\<close>

text \<open>
  \<open>geo.groupby('geolocation_zip_code_prefix', as_index = False).first()\<close>: one row per
  zip code prefix, each column holding the first value of the group that is not missing.
\<close>

definition geo_first :: "geo_row list \<Rightarrow> geo_row list" where
  "geo_first geo =
     map (\<lambda>z. let g = group_rows geolocation_zip_code_prefix geo z in
            \<lparr> geolocation_zip_code_prefix = Some z,
              geolocation_lat = first_non_null (map geolocation_lat g),
              geolocation_lng = first_non_null (map geolocation_lng g),
              geolocation_city = first_non_null (map geolocation_city g),
              geolocation_state = first_non_null (map geolocation_state g) \<rparr>)
         (group_keys geolocation_zip_code_prefix geo)"

text \<open>A seller or a customer with the coordinates of the left merge (the masked columns).\<close>

record located_row =
  l_id :: "string option"
  l_zip_code_prefix :: "int option"
  l_city :: "string option"
  l_state :: "string option"
  l_lat :: "rat option"
  l_lng :: "rat option"

fun seller_geo :: "seller_row \<times> geo_row option \<Rightarrow> located_row" where
  "seller_geo (s, g) =
     \<lparr> l_id = s_seller_id s, l_zip_code_prefix = seller_zip_code_prefix s,
       l_city = seller_city s, l_state = seller_state s,
       l_lat = (case g of None \<Rightarrow> None | Some x \<Rightarrow> geolocation_lat x),
       l_lng = (case g of None \<Rightarrow> None | Some x \<Rightarrow> geolocation_lng x) \<rparr>"

fun customer_geo :: "customer_row \<times> geo_row option \<Rightarrow> located_row" where
  "customer_geo (c, g) =
     \<lparr> l_id = c_customer_id c, l_zip_code_prefix = customer_zip_code_prefix c,
       l_city = customer_city c, l_state = customer_state c,
       l_lat = (case g of None \<Rightarrow> None | Some x \<Rightarrow> geolocation_lat x),
       l_lng = (case g of None \<Rightarrow> None | Some x \<Rightarrow> geolocation_lng x) \<rparr>"

text \<open>
  A row of \<open>matching_geo\<close> is the matching row with the seller's and the customer's located
  rows: the columns of the merged frame are the five of the matching table, then the zip
  prefix, city, state, latitude and longitude of the seller, then those of the customer.
\<close>

type_synonym matching_geo_row = "(matching_row \<times> located_row) \<times> located_row"

definition matching_complete :: "matching_row \<Rightarrow> bool" where
  "matching_complete m \<longleftrightarrow>
     m_customer_id m \<noteq> None \<and> m_order_id m \<noteq> None \<and> m_review_id m \<noteq> None
     \<and> m_product_id m \<noteq> None \<and> m_seller_id m \<noteq> None"

definition located_complete :: "located_row \<Rightarrow> bool" where
  "located_complete l \<longleftrightarrow>
     l_id l \<noteq> None \<and> l_zip_code_prefix l \<noteq> None \<and> l_city l \<noteq> None
     \<and> l_state l \<noteq> None \<and> l_lat l \<noteq> None \<and> l_lng l \<noteq> None"

text \<open>\<open>matching_geo.dropna()\<close> keeps the rows without a missing value in any column.\<close>

fun matching_geo_complete :: "matching_geo_row \<Rightarrow> bool" where
  "matching_geo_complete ((m, s), c) \<longleftrightarrow>
     matching_complete m \<and> located_complete s \<and> located_complete c"

text \<open>
  \<open>haversine_distance\<close> lives in \<open>olist.utils\<close>; it is a parameter here, applied to the
  seller's longitude and latitude and the customer's longitude and latitude.
\<close>

fun row_distance :: "(rat \<Rightarrow> rat \<Rightarrow> rat \<Rightarrow> rat \<Rightarrow> rat) \<Rightarrow> matching_geo_row \<Rightarrow> rat option" where
  "row_distance haversine_distance ((m, s), c) =
     (case (l_lng s, l_lat s, l_lng c, l_lat c) of
        (Some lng1, Some lat1, Some lng2, Some lat2) \<Rightarrow>
          Some (haversine_distance lng1 lat1 lng2 lat2)
      | _ \<Rightarrow> None)"

definition matching_geo_order_id :: "matching_geo_row \<Rightarrow> string option" where
  "matching_geo_order_id x = m_order_id (fst (fst x))"

record distance_row =
  d_order_id :: "string option"
  distance_seller_customer :: "rat option"

text \<open>
  \<open>data\<close> is \<open>self.data\<close>; \<open>reloaded\<close> is the dictionary loaded again by
  \<open>Olist().get_matching_table()\<close>. \<open>matching_geo_merged\<close> is \<open>matching_geo\<close> after
  the two merges, \<open>matching_geo\<close> is the frame after \<open>dropna()\<close>. When no row is
  left, the row-wise \<open>apply\<close> adds an empty column and the method returns an empty frame.
\<close>

definition matching_geo_merged :: "dataset \<Rightarrow> dataset \<Rightarrow> matching_geo_row list" where
  "matching_geo_merged data reloaded =
     (let matching_table = get_matching_table reloaded;
          geo = geo_first (geolocation data);
          sellers_geo = map seller_geo
            (merge_left seller_zip_code_prefix geolocation_zip_code_prefix (sellers data) geo);
          customers_geo = map customer_geo
            (merge_left customer_zip_code_prefix geolocation_zip_code_prefix (customers data) geo)
      in merge_inner (\<lambda>x. m_customer_id (fst x)) l_id
           (merge_inner m_seller_id l_id matching_table sellers_geo)
           customers_geo)"

definition matching_geo :: "dataset \<Rightarrow> dataset \<Rightarrow> matching_geo_row list" where
  "matching_geo data reloaded = filter matching_geo_complete (matching_geo_merged data reloaded)"

definition get_distance_seller_customer ::
    "(rat \<Rightarrow> rat \<Rightarrow> rat \<Rightarrow> rat \<Rightarrow> rat) \<Rightarrow> dataset \<Rightarrow> dataset \<Rightarrow> distance_row list" where
  "get_distance_seller_customer haversine_distance data reloaded =
     (let rows = matching_geo data reloaded in
      map (\<lambda>k. \<lparr> d_order_id = Some k,
                  distance_seller_customer =
                    mean_cells (map (row_distance haversine_distance)
                      (group_rows matching_geo_order_id rows k)) \<rparr>)
          (group_keys matching_geo_order_id rows))"

section \<open>Order.get_training_data\<close>

text \<open>A column that the frame has only when it was asked for.\<close>

datatype 'a column = Absent | Present 'a

record training_row =
  t_order_id :: "string option"
  t_wait_time :: "rat option"
  t_expected_wait_time :: "rat option"
  t_delay_vs_expected :: "rat option"
  t_dim_is_five_star :: int
  t_dim_is_one_star :: int
  t_review_score :: "int option"
  t_number_of_products :: nat
  t_number_of_sellers :: nat
  t_price :: rat
  t_freight_value :: rat
  t_distance_seller_customer :: "rat option column"

text \<open>The flat row of the five merges, the distance column still absent.\<close>

fun training_row_of :: "(((wait_time_row \<times> review_score_row) \<times> number_products_row)
    \<times> number_sellers_row) \<times> price_freight_row \<Rightarrow> training_row" where
  "training_row_of ((((w, r), p), s), f) =
     \<lparr> t_order_id = w_order_id w,
       t_wait_time = wait_time w,
       t_expected_wait_time = expected_wait_time w,
       t_delay_vs_expected = delay_vs_expected w,
       t_dim_is_five_star = dim_is_five_star r,
       t_dim_is_one_star = dim_is_one_star r,
       t_review_score = review_score r,
       t_number_of_products = number_of_products p,
       t_number_of_sellers = number_of_sellers s,
       t_price = price f,
       t_freight_value = freight_value f,
       t_distance_seller_customer = Absent \<rparr>"

fun with_distance :: "training_row \<times> distance_row \<Rightarrow> training_row" where
  "with_distance (t, d) =
     t\<lparr> t_distance_seller_customer := Present (distance_seller_customer d) \<rparr>"

text \<open>
  A row has a null when a cell of a column that can hold a missing value is missing: the
  flags, counts and sums are numbers by construction.
\<close>

definition has_null :: "training_row \<Rightarrow> bool" where
  "has_null t \<longleftrightarrow>
     t_order_id t = None \<or> t_wait_time t = None \<or> t_expected_wait_time t = None
     \<or> t_delay_vs_expected t = None \<or> t_review_score t = None
     \<or> t_distance_seller_customer t = Present None"

definition dropna :: "training_row list \<Rightarrow> training_row list" where
  "dropna rows = filter (\<lambda>t. \<not> has_null t) rows"

text \<open>The five merges on \<open>order_id\<close>, in the order of the source.\<close>

definition merged_features :: "wait_time_row list \<Rightarrow> dataset \<Rightarrow> training_row list" where
  "merged_features wait_times data =
     map training_row_of
       (merge_inner (\<lambda>x. w_order_id (fst (fst (fst x)))) pf_order_id
         (merge_inner (\<lambda>x. w_order_id (fst (fst x))) ns_order_id
           (merge_inner (\<lambda>x. w_order_id (fst x)) np_order_id
             (merge_inner w_order_id rs_order_id wait_times (get_review_score data))
             (get_number_products data))
           (get_number_sellers data))
         (get_price_and_freight data))"

definition get_training_data ::
    "(string \<Rightarrow> error + timestamp option) \<Rightarrow> (rat \<Rightarrow> rat \<Rightarrow> rat \<Rightarrow> rat \<Rightarrow> rat)
     \<Rightarrow> dataset \<Rightarrow> dataset \<Rightarrow> bool \<Rightarrow> bool \<Rightarrow> error + training_row list" where
  "get_training_data parse haversine_distance data reloaded is_delivered
       with_distance_seller_customer =
     ebind (get_wait_time parse data is_delivered) (\<lambda>wait_times.
       let training_set = merged_features wait_times data;
           training_set =
             (if with_distance_seller_customer
              then map with_distance
                     (merge_inner t_order_id d_order_id training_set
                       (get_distance_seller_customer haversine_distance data reloaded))
              else training_set)
       in Inr (dropna training_set))"

section \<open>Olist.get_data\<close>

text \<open>
  The file system the loader sees: the working directory, what \<open>os.listdir\<close> returns for
  a directory (\<open>None\<close>: there is no such directory) and the content of each file by its
  path. \<open>pd.read_csv\<close> on a content is the parameter \<open>read_csv\<close>.
\<close>

record 'c filesystem =
  cwd :: string
  listing :: "string \<Rightarrow> string list option"
  files :: "string \<Rightarrow> 'c option"

text \<open>\<open>os.path.join\<close> of two components.\<close>

definition path_join :: "string \<Rightarrow> string \<Rightarrow> string" where
  "path_join a b =
     (if take 1 b = ''/'' then b
      else if a = [] \<or> drop (length a - 1) a = ''/'' then a @ b
      else a @ ''/'' @ b)"

definition os_listdir :: "'c filesystem \<Rightarrow> string \<Rightarrow> error + string list" where
  "os_listdir fs path =
     (case listing fs path of None \<Rightarrow> Inl (FileNotFoundError path) | Some names \<Rightarrow> Inr names)"

text \<open>\<open>os.remove\<close> of a relative name: the file of that name in the working directory.\<close>

definition os_remove :: "'c filesystem \<Rightarrow> string \<Rightarrow> error + 'c filesystem" where
  "os_remove fs name =
     (let path = path_join (cwd fs) name in
      case files fs path of
        None \<Rightarrow> Inl (FileNotFoundError name)
      | Some c \<Rightarrow>
          Inr (fs\<lparr> files := (files fs)(path := None),
                   listing := (listing fs)(cwd fs :=
                     map_option (removeAll name) (listing fs (cwd fs))) \<rparr>))"

definition pd_read_csv :: "('c \<Rightarrow> error + 'df) \<Rightarrow> 'c filesystem \<Rightarrow> string \<Rightarrow> error + 'df" where
  "pd_read_csv read_csv fs path =
     (case files fs path of None \<Rightarrow> Inl (FileNotFoundError path) | Some c \<Rightarrow> read_csv c)"

text \<open>
  \<open>str.replace(old, new)\<close>: every occurrence of \<open>old\<close>, found from left to right without
  overlap, becomes \<open>new\<close>.
\<close>

function replace :: "string \<Rightarrow> string \<Rightarrow> string \<Rightarrow> string" where
  "replace old new [] = (if old = [] then new else [])"
| "replace old new (c # cs) =
     (if old = [] then new @ c # replace old new cs
      else if take (length old) (c # cs) = old
        then new @ replace old new (drop (length old) (c # cs))
      else c # replace old new cs)"
  by pat_completeness auto
termination
  by (relation "measure (\<lambda>(old, new, s). length s)") auto

definition key_from_file_name :: "'c filesystem \<Rightarrow> string \<Rightarrow> error + (string \<times> 'c filesystem)" where
  "key_from_file_name fs filename =
     ebind (if filename = ''.DS_Store'' then os_remove fs filename else Inr fs) (\<lambda>fs'.
       Inr (replace ''.csv'' [] (replace ''_dataset.csv'' [] (replace ''olist_'' [] filename)),
            fs'))"

text \<open>
  A Python dictionary keeps its keys in insertion order; assigning to a key that is already
  there replaces its value in place.
\<close>

fun dict_set :: "('k \<times> 'v) list \<Rightarrow> 'k \<Rightarrow> 'v \<Rightarrow> ('k \<times> 'v) list" where
  "dict_set [] k v = [(k, v)]"
| "dict_set ((k', v') # kvs) k v =
     (if k' = k then (k, v) # kvs else (k', v') # dict_set kvs k v)"

text \<open>
  The loop over \<open>file_names\<close>. In \<open>data[key_from_file_name(file)] = pd.read_csv(...)\<close>
  Python evaluates the right-hand side first, then the key.
\<close>

fun load_files :: "('c \<Rightarrow> error + 'df) \<Rightarrow> string \<Rightarrow> string list \<Rightarrow> (string \<times> 'df) list
    \<Rightarrow> 'c filesystem \<Rightarrow> error + ((string \<times> 'df) list \<times> 'c filesystem)" where
  "load_files read_csv csv_path [] data fs = Inr (data, fs)"
| "load_files read_csv csv_path (file # file_names) data fs =
     ebind (pd_read_csv read_csv fs (csv_path @ ''/'' @ file)) (\<lambda>df.
     ebind (key_from_file_name fs file) (\<lambda>(key, fs').
       load_files read_csv csv_path file_names (dict_set data key df) fs'))"

text \<open>
  \<open>root_path\<close> is the absolute path of the directory above the module's directory. The
  result is the dictionary and the file system as the call leaves it.
\<close>

definition get_data :: "('c \<Rightarrow> error + 'df) \<Rightarrow> string \<Rightarrow> 'c filesystem
    \<Rightarrow> error + ((string \<times> 'df) list \<times> 'c filesystem)" where
  "get_data read_csv root_path fs =
     (let csv_path = path_join (path_join root_path ''data'') ''csv'' in
      ebind (os_listdir fs csv_path) (\<lambda>file_names.
        load_files read_csv csv_path file_names [] fs))"

section \<open>Predicates of the statements, and example data\<close>

text \<open>The three date cells of an order go through \<open>pd.to_datetime\<close> without an error.\<close>

definition dates_parse :: "(string \<Rightarrow> error + timestamp option) \<Rightarrow> order_row \<Rightarrow> bool" where
  "dates_parse parse ord \<longleftrightarrow>
     \<not> isl (parse_cell parse (order_purchase_timestamp ord))
     \<and> \<not> isl (parse_cell parse (order_delivered_customer_date ord))
     \<and> \<not> isl (parse_cell parse (order_estimated_delivery_date ord))"

text \<open>A parser for the dates of the examples: four timestamps of January 2018.\<close>

definition demo_parse :: "string \<Rightarrow> error + timestamp option" where
  "demo_parse s =
     (if s = ''2018-01-01 00:00:00'' then Inr (Some 1514764800000000000)
      else if s = ''2018-01-03 12:00:00'' then Inr (Some 1514980800000000000)
      else if s = ''2018-01-05 00:00:00'' then Inr (Some 1515110400000000000)
      else if s = ''2018-01-10 00:00:00'' then Inr (Some 1515542400000000000)
      else if s = ''NaT'' then Inr None
      else Inl (DateParseError s))"

text \<open>
  Order A is delivered a day and a half before the estimate, order B is shipped and has no
  delivery date, order C is delivered five days late, order D carries a delivery date that
  lies before its purchase.
\<close>

definition order_A :: order_row where
  "order_A = \<lparr> o_order_id = Some ''A'', o_customer_id = Some ''c1'',
     order_status = Some ''delivered'',
     order_purchase_timestamp = Some ''2018-01-01 00:00:00'',
     order_delivered_customer_date = Some ''2018-01-03 12:00:00'',
     order_estimated_delivery_date = Some ''2018-01-05 00:00:00'' \<rparr>"

definition order_B :: order_row where
  "order_B = \<lparr> o_order_id = Some ''B'', o_customer_id = Some ''c2'',
     order_status = Some ''shipped'',
     order_purchase_timestamp = Some ''2018-01-01 00:00:00'',
     order_delivered_customer_date = None,
     order_estimated_delivery_date = Some ''2018-01-05 00:00:00'' \<rparr>"

definition order_C :: order_row where
  "order_C = \<lparr> o_order_id = Some ''C'', o_customer_id = Some ''c1'',
     order_status = Some ''delivered'',
     order_purchase_timestamp = Some ''2018-01-01 00:00:00'',
     order_delivered_customer_date = Some ''2018-01-10 00:00:00'',
     order_estimated_delivery_date = Some ''2018-01-05 00:00:00'' \<rparr>"

definition order_D :: order_row where
  "order_D = \<lparr> o_order_id = Some ''D'', o_customer_id = Some ''c1'',
     order_status = Some ''delivered'',
     order_purchase_timestamp = Some ''2018-01-05 00:00:00'',
     order_delivered_customer_date = Some ''2018-01-01 00:00:00'',
     order_estimated_delivery_date = Some ''2018-01-10 00:00:00'' \<rparr>"

definition orders_only :: "order_row list \<Rightarrow> dataset" where
  "orders_only os = \<lparr> orders = os, order_items = [], order_reviews = [], sellers = [],
     customers = [], geolocation = [] \<rparr>"

definition wt_A :: wait_time_row where
  "wt_A = \<lparr> w_order_id = Some ''A'', wait_time = Some (5/2), expected_wait_time = Some 4,
     delay_vs_expected = Some 0 \<rparr>"

definition wt_B :: wait_time_row where
  "wt_B = \<lparr> w_order_id = Some ''B'', wait_time = None, expected_wait_time = Some 4,
     delay_vs_expected = Some 0 \<rparr>"

definition wt_C :: wait_time_row where
  "wt_C = \<lparr> w_order_id = Some ''C'', wait_time = Some 9, expected_wait_time = Some 4,
     delay_vs_expected = Some 5 \<rparr>"

text \<open>
  Two items of order A from two sellers, and an item row of order A whose
  \<open>order_item_id\<close> cell is empty.
\<close>

definition item_A1 :: item_row where
  "item_A1 = \<lparr> i_order_id = Some ''A'', order_item_id = Some 1, i_product_id = Some ''p1'',
     i_seller_id = Some ''s1'', i_price = Some 10, i_freight_value = Some 5 \<rparr>"

definition item_A2 :: item_row where
  "item_A2 = \<lparr> i_order_id = Some ''A'', order_item_id = Some 2, i_product_id = Some ''p2'',
     i_seller_id = Some ''s2'', i_price = Some 20, i_freight_value = Some 5 \<rparr>"




text \<open>
  A small data set: order A (delivered, customer c1) has one review of five stars and two
  items from the sellers s1 and s2; order B (shipped, customer c2) has neither review nor
  item. The zip prefix 1000 of seller s1 occurs twice in the geolocation table; customer c2
  lives at a prefix the table does not have.
\<close>

definition review_A :: review_row where
  "review_A = \<lparr> r_review_id = Some ''r1'', r_order_id = Some ''A'', r_review_score = Some 5 \<rparr>"

definition seller_1 :: seller_row where
  "seller_1 = \<lparr> s_seller_id = Some ''s1'', seller_zip_code_prefix = Some 1000,
     seller_city = Some ''x'', seller_state = Some ''SP'' \<rparr>"

definition seller_2 :: seller_row where
  "seller_2 = \<lparr> s_seller_id = Some ''s2'', seller_zip_code_prefix = Some 2000,
     seller_city = Some ''y'', seller_state = Some ''SP'' \<rparr>"

definition customer_1 :: customer_row where
  "customer_1 = \<lparr> c_customer_id = Some ''c1'', customer_zip_code_prefix = Some 3000,
     customer_city = Some ''z'', customer_state = Some ''RJ'' \<rparr>"

definition customer_2 :: customer_row where
  "customer_2 = \<lparr> c_customer_id = Some ''c2'', customer_zip_code_prefix = Some 9999,
     customer_city = Some ''z'', customer_state = Some ''RJ'' \<rparr>"

definition geo_of :: "int \<Rightarrow> rat option \<Rightarrow> rat option \<Rightarrow> geo_row" where
  "geo_of z lat lng = \<lparr> geolocation_zip_code_prefix = Some z, geolocation_lat = lat,
     geolocation_lng = lng, geolocation_city = Some ''g'', geolocation_state = Some ''SP'' \<rparr>"

definition demo_geolocation :: "geo_row list" where
  "demo_geolocation =
     [geo_of 1000 (Some 0) (Some 0), geo_of 1000 (Some 1) (Some 1),
      geo_of 2000 (Some 0) (Some 8), geo_of 3000 (Some 0) (Some 3)]"

definition demo_data :: dataset where
  "demo_data = \<lparr> orders = [order_A, order_B], order_items = [item_A1, item_A2],
     order_reviews = [review_A], sellers = [seller_1, seller_2],
     customers = [customer_1, customer_2], geolocation = demo_geolocation \<rparr>"

definition matching_A1 :: matching_row where
  "matching_A1 = \<lparr> m_customer_id = Some ''c1'', m_order_id = Some ''A'',
     m_review_id = Some ''r1'', m_product_id = Some ''p1'', m_seller_id = Some ''s1'' \<rparr>"

definition matching_A2 :: matching_row where
  "matching_A2 = \<lparr> m_customer_id = Some ''c1'', m_order_id = Some ''A'',
     m_review_id = Some ''r1'', m_product_id = Some ''p2'', m_seller_id = Some ''s2'' \<rparr>"

definition matching_B :: matching_row where
  "matching_B = \<lparr> m_customer_id = Some ''c2'', m_order_id = Some ''B'',
     m_review_id = None, m_product_id = None, m_seller_id = None \<rparr>"

text \<open>
  File systems for the loader, with the repository at \<open>/repo\<close>: one without the directory
  \<open>/repo/data/csv\<close>, one where the directory exists and is empty, one where it holds an
  empty file, one where it holds two tables. The reader of the examples refuses an empty
  file and returns the content of any other file as the table.
\<close>

definition demo_read_csv :: "string \<Rightarrow> error + string" where
  "demo_read_csv c = (if c = [] then Inl (CsvError ''no columns to parse'') else Inr c)"

definition fs_missing :: "string filesystem" where
  "fs_missing = \<lparr> cwd = ''/repo'', listing = (\<lambda>p. None), files = (\<lambda>p. None) \<rparr>"

definition fs_empty :: "string filesystem" where
  "fs_empty = \<lparr> cwd = ''/repo'',
     listing = (\<lambda>p. if p = ''/repo/data/csv'' then Some [] else None),
     files = (\<lambda>p. None) \<rparr>"

definition fs_unreadable :: "string filesystem" where
  "fs_unreadable = \<lparr> cwd = ''/repo'',
     listing = (\<lambda>p. if p = ''/repo/data/csv'' then Some [''orders.csv''] else None),
     files = (\<lambda>p. if p = ''/repo/data/csv/orders.csv'' then Some [] else None) \<rparr>"

definition fs_two_tables :: "string filesystem" where
  "fs_two_tables = \<lparr> cwd = ''/repo'',
     listing = (\<lambda>p. if p = ''/repo/data/csv''
        then Some [''olist_orders_dataset.csv'', ''sellers.csv''] else None),
     files = (\<lambda>p. if p = ''/repo/data/csv/olist_orders_dataset.csv'' then Some ''o''
        else if p = ''/repo/data/csv/sellers.csv'' then Some ''s'' else None) \<rparr>"

text \<open>
  A stand-in for the distance function in the examples (the sum of the differences of the
  coordinates), and the training row of order A in \<open>demo_data\<close>, without and with the
  distance column.
\<close>

definition demo_distance :: "rat \<Rightarrow> rat \<Rightarrow> rat \<Rightarrow> rat \<Rightarrow> rat" where
  "demo_distance lng1 lat1 lng2 lat2 = \<bar>lng1 - lng2\<bar> + \<bar>lat1 - lat2\<bar>"

definition training_A :: training_row where
  "training_A = \<lparr> t_order_id = Some ''A'', t_wait_time = Some (5/2),
     t_expected_wait_time = Some 4, t_delay_vs_expected = Some 0, t_dim_is_five_star = 1,
     t_dim_is_one_star = 0, t_review_score = Some 5, t_number_of_products = 2,
     t_number_of_sellers = 2, t_price = 30, t_freight_value = 10,
     t_distance_seller_customer = Absent \<rparr>"

definition training_A_distance :: training_row where
  "training_A_distance = training_A\<lparr> t_distance_seller_customer := Present (Some 4) \<rparr>"

text \<open>
  Order D, delivered according to its status, with one item and one review; its delivery
  date lies four days before its purchase.
\<close>

definition item_D :: item_row where
  "item_D = \<lparr> i_order_id = Some ''D'', order_item_id = Some 1, i_product_id = Some ''p1'',
     i_seller_id = Some ''s1'', i_price = Some 10, i_freight_value = Some 5 \<rparr>"

definition review_D :: review_row where
  "review_D = \<lparr> r_review_id = Some ''r4'', r_order_id = Some ''D'', r_review_score = Some 1 \<rparr>"

definition data_D :: dataset where
  "data_D = \<lparr> orders = [order_D], order_items = [item_D], order_reviews = [review_D],
     sellers = [], customers = [], geolocation = [] \<rparr>"

definition wt_D :: wait_time_row where
  "wt_D = \<lparr> w_order_id = Some ''D'', wait_time = Some (- 4), expected_wait_time = Some 5,
     delay_vs_expected = Some 0 \<rparr>"

definition training_D :: training_row where
  "training_D = \<lparr> t_order_id = Some ''D'', t_wait_time = Some (- 4),
     t_expected_wait_time = Some 5, t_delay_vs_expected = Some 0, t_dim_is_five_star = 0,
     t_dim_is_one_star = 1, t_review_score = Some 1, t_number_of_products = 1,
     t_number_of_sellers = 1, t_price = 10, t_freight_value = 5,
     t_distance_seller_customer = Absent \<rparr>"

text \<open>Order A with its items, and a review table that only knows order D.\<close>

definition data_disjoint :: dataset where
  "data_disjoint = \<lparr> orders = [order_A], order_items = [item_A1, item_A2],
     order_reviews = [review_D], sellers = [], customers = [], geolocation = [] \<rparr>"

text \<open>
  The frames between the merges of \<open>get_training_data\<close>, by name: the wait times merged
  with the review scores, that merged with the product counts, with the seller counts, with
  the prices, and the last one merged with the distances.
\<close>

definition join_review_score ::
    "wait_time_row list \<Rightarrow> dataset \<Rightarrow> (wait_time_row \<times> review_score_row) list" where
  "join_review_score wait_times data =
     merge_inner w_order_id rs_order_id wait_times (get_review_score data)"

definition join_number_products :: "wait_time_row list \<Rightarrow> dataset
    \<Rightarrow> ((wait_time_row \<times> review_score_row) \<times> number_products_row) list" where
  "join_number_products wait_times data =
     merge_inner (\<lambda>x. w_order_id (fst x)) np_order_id
       (join_review_score wait_times data) (get_number_products data)"

definition join_number_sellers :: "wait_time_row list \<Rightarrow> dataset
    \<Rightarrow> (((wait_time_row \<times> review_score_row) \<times> number_products_row)
        \<times> number_sellers_row) list" where
  "join_number_sellers wait_times data =
     merge_inner (\<lambda>x. w_order_id (fst (fst x))) ns_order_id
       (join_number_products wait_times data) (get_number_sellers data)"

definition join_price_and_freight :: "wait_time_row list \<Rightarrow> dataset
    \<Rightarrow> ((((wait_time_row \<times> review_score_row) \<times> number_products_row)
        \<times> number_sellers_row) \<times> price_freight_row) list" where
  "join_price_and_freight wait_times data =
     merge_inner (\<lambda>x. w_order_id (fst (fst (fst x)))) pf_order_id
       (join_number_sellers wait_times data) (get_price_and_freight data)"

definition join_distance :: "(rat \<Rightarrow> rat \<Rightarrow> rat \<Rightarrow> rat \<Rightarrow> rat) \<Rightarrow> wait_time_row list
    \<Rightarrow> dataset \<Rightarrow> dataset \<Rightarrow> (training_row \<times> distance_row) list" where
  "join_distance haversine_distance wait_times data reloaded =
     merge_inner t_order_id d_order_id (merged_features wait_times data)
       (get_distance_seller_customer haversine_distance data reloaded)"

text \<open>
  The located sellers and customers of \<open>demo_data\<close>, and a data set which has, besides
  order A with its review and items, the order C of customer c1 with an item of seller s1 and
  no review.
\<close>

definition located_s1 :: located_row where
  "located_s1 = \<lparr> l_id = Some ''s1'', l_zip_code_prefix = Some 1000, l_city = Some ''x'',
     l_state = Some ''SP'', l_lat = Some 0, l_lng = Some 0 \<rparr>"

definition located_s2 :: located_row where
  "located_s2 = \<lparr> l_id = Some ''s2'', l_zip_code_prefix = Some 2000, l_city = Some ''y'',
     l_state = Some ''SP'', l_lat = Some 0, l_lng = Some 8 \<rparr>"

definition located_c1 :: located_row where
  "located_c1 = \<lparr> l_id = Some ''c1'', l_zip_code_prefix = Some 3000, l_city = Some ''z'',
     l_state = Some ''RJ'', l_lat = Some 0, l_lng = Some 3 \<rparr>"

definition located_c2 :: located_row where
  "located_c2 = \<lparr> l_id = Some ''c2'', l_zip_code_prefix = Some 9999, l_city = Some ''z'',
     l_state = Some ''RJ'', l_lat = None, l_lng = None \<rparr>"

definition item_C :: item_row where
  "item_C = \<lparr> i_order_id = Some ''C'', order_item_id = Some 1, i_product_id = Some ''p1'',
     i_seller_id = Some ''s1'', i_price = Some 10, i_freight_value = Some 5 \<rparr>"



text \<open>
  The delivered orders A and C, a review of order A only, an item of order C only: the
  first merge keeps order A, the second merge keeps nothing.
\<close>

definition data_second_join :: dataset where
  "data_second_join = \<lparr> orders = [order_A, order_C], order_items = [item_C],
     order_reviews = [review_A], sellers = [], customers = [], geolocation = [] \<rparr>"

section \<open>Properties of get_wait_time\<close>

lemma to_datetime_Inr:
  "to_datetime parse cs = Inr ts \<Longrightarrow>
     length ts = length cs \<and> (\<forall>i<length cs. parse_cell parse (cs ! i) = Inr (ts ! i))"
proof (induction cs arbitrary: ts)
  case Nil
  then show ?case by simp
next
  case (Cons c cs)
  from Cons.prems obtain t ts' where
    c: "parse_cell parse c = Inr t" and r: "to_datetime parse cs = Inr ts'" and ts: "ts = t # ts'"
    by (auto simp: ebind_def split: sum.splits)
  from Cons.IH[OF r] show ?case
    by (auto simp: ts c nth_Cons split: nat.splits)
qed

lemma to_datetime_total:
  "\<forall>c\<in>set cs. \<not> isl (parse_cell parse c) \<Longrightarrow> \<exists>ts. to_datetime parse cs = Inr ts"
  by (induction cs) (auto simp: ebind_def split: sum.splits)

lemma get_wait_time_Inr:
  assumes "get_wait_time parse data b = Inr rows"
  shows "length rows = length (wait_time_orders data b)"
    and "i < length rows \<Longrightarrow>
      \<exists>p d e. parse_cell parse (order_purchase_timestamp (wait_time_orders data b ! i)) = Inr p
        \<and> parse_cell parse (order_delivered_customer_date (wait_time_orders data b ! i)) = Inr d
        \<and> parse_cell parse (order_estimated_delivery_date (wait_time_orders data b ! i)) = Inr e
        \<and> rows ! i = wait_time_of (wait_time_orders data b ! i, p, d, e)"
proof -
  let ?os = "wait_time_orders data b"
  from assms obtain ps ds es where
    ps: "to_datetime parse (map order_purchase_timestamp ?os) = Inr ps" and
    ds: "to_datetime parse (map order_delivered_customer_date ?os) = Inr ds" and
    es: "to_datetime parse (map order_estimated_delivery_date ?os) = Inr es" and
    rows: "rows = map wait_time_of (zip ?os (zip ps (zip ds es)))"
    by (auto simp: get_wait_time_def ebind_def Let_def split: sum.splits)
  note P = to_datetime_Inr[OF ps] and D = to_datetime_Inr[OF ds] and E = to_datetime_Inr[OF es]
  show "length rows = length ?os" using P D E by (simp add: rows)
  show "\<exists>p d e. parse_cell parse (order_purchase_timestamp (?os ! i)) = Inr p
        \<and> parse_cell parse (order_delivered_customer_date (?os ! i)) = Inr d
        \<and> parse_cell parse (order_estimated_delivery_date (?os ! i)) = Inr e
        \<and> rows ! i = wait_time_of (?os ! i, p, d, e)" if "i < length rows"
  proof -
    from that P D E have i: "i < length ?os" by (simp add: rows)
    with P D E show ?thesis by (auto simp: rows)
  qed
qed

lemma get_wait_time_total:
  assumes "\<forall>ord\<in>set (wait_time_orders data b). dates_parse parse ord"
  shows "\<exists>rows. get_wait_time parse data b = Inr rows"
proof -
  let ?os = "wait_time_orders data b"
  from assms obtain ps where ps: "to_datetime parse (map order_purchase_timestamp ?os) = Inr ps"
    using to_datetime_total[of "map order_purchase_timestamp ?os" parse]
    by (auto simp: dates_parse_def)
  from assms obtain ds where ds: "to_datetime parse (map order_delivered_customer_date ?os) = Inr ds"
    using to_datetime_total[of "map order_delivered_customer_date ?os" parse]
    by (auto simp: dates_parse_def)
  from assms obtain es where es: "to_datetime parse (map order_estimated_delivery_date ?os) = Inr es"
    using to_datetime_total[of "map order_estimated_delivery_date ?os" parse]
    by (auto simp: dates_parse_def)
  show ?thesis by (simp add: get_wait_time_def Let_def ebind_def ps ds es)
qed

lemma get_wait_time_order_ids:
  assumes "get_wait_time parse data b = Inr rows"
  shows "map w_order_id rows = map o_order_id (wait_time_orders data b)"
proof (rule nth_equalityI)
  show "length (map w_order_id rows) = length (map o_order_id (wait_time_orders data b))"
    using get_wait_time_Inr(1)[OF assms] by simp
next
  fix i assume "i < length (map w_order_id rows)"
  then have i: "i < length rows" by simp
  from get_wait_time_Inr(2)[OF assms i] get_wait_time_Inr(1)[OF assms] i
  show "map w_order_id rows ! i = map o_order_id (wait_time_orders data b) ! i"
    by (auto simp: wait_time_of_def)
qed

text \<open>
  C4. With \<open>is_delivered\<close> the returned rows are, one for one and in order, the orders
  whose status is \<open>delivered\<close>, and no other order has a row; without it they are, one
  for one, all the orders. The call returns a table whenever the date cells of the orders it
  works on can be parsed.
\<close>

theorem get_wait_time_one_row_per_order:
  "(\<forall>rows. get_wait_time parse data True = Inr rows \<longrightarrow>
      map w_order_id rows =
        map o_order_id (filter (\<lambda>ord. order_status ord = Some ''delivered'') (orders data)))
   \<and> (\<forall>rows. get_wait_time parse data False = Inr rows \<longrightarrow>
      map w_order_id rows = map o_order_id (orders data))
   \<and> ((\<forall>ord\<in>set (wait_time_orders data is_delivered). dates_parse parse ord) \<longrightarrow>
      (\<exists>rows. get_wait_time parse data is_delivered = Inr rows))"
  using get_wait_time_order_ids[of parse data True] get_wait_time_order_ids[of parse data False]
    get_wait_time_total[of data is_delivered parse]
  by (simp add: wait_time_orders_def)

lemma demo_cells:
  "parse_cell demo_parse (Some ''2018-01-01 00:00:00'') = Inr (Some 1514764800000000000)"
  "parse_cell demo_parse (Some ''2018-01-03 12:00:00'') = Inr (Some 1514980800000000000)"
  "parse_cell demo_parse (Some ''2018-01-05 00:00:00'') = Inr (Some 1515110400000000000)"
  "parse_cell demo_parse (Some ''2018-01-10 00:00:00'') = Inr (Some 1515542400000000000)"
  "parse_cell demo_parse None = Inr None"
  by (simp_all add: parse_cell_def demo_parse_def)

lemma wait_time_of_A: "wait_time_of (order_A, Some 1514764800000000000, Some 1514980800000000000, Some 1515110400000000000) = wt_A"
  by (simp add: wait_time_of_def order_A_def wt_A_def in_days_def absolute_delay_def one_day_delta_def)

lemma wait_time_of_B: "wait_time_of (order_B, Some 1514764800000000000, None, Some 1515110400000000000) = wt_B"
  by (simp add: wait_time_of_def order_B_def wt_B_def in_days_def absolute_delay_def one_day_delta_def)

lemma order_cells:
  "order_purchase_timestamp order_A = Some ''2018-01-01 00:00:00''"
  "order_delivered_customer_date order_A = Some ''2018-01-03 12:00:00''"
  "order_estimated_delivery_date order_A = Some ''2018-01-05 00:00:00''"
  "order_status order_A = Some ''delivered''"
  "order_purchase_timestamp order_B = Some ''2018-01-01 00:00:00''"
  "order_delivered_customer_date order_B = None"
  "order_estimated_delivery_date order_B = Some ''2018-01-05 00:00:00''"
  "order_status order_B = Some ''shipped''"
  by (simp_all add: order_A_def order_B_def)

lemma demo_wait_times:
  "get_wait_time demo_parse (orders_only [order_A, order_B]) True = Inr [wt_A]"
  "get_wait_time demo_parse (orders_only [order_A, order_B]) False = Inr [wt_A, wt_B]"
  by (simp_all add: get_wait_time_def wait_time_orders_def orders_only_def ebind_def
      order_cells demo_cells wait_time_of_A wait_time_of_B)

theorem get_wait_time_one_row_per_order_witness:
  "get_wait_time demo_parse (orders_only [order_A, order_B]) True = Inr [wt_A]
   \<and> map w_order_id [wt_A] = [Some ''A'']
   \<and> get_wait_time demo_parse (orders_only [order_A, order_B]) False = Inr [wt_A, wt_B]
   \<and> map w_order_id [wt_A, wt_B] = [Some ''A'', Some ''B'']"
  using get_wait_time_one_row_per_order[of demo_parse "orders_only [order_A, order_B]" True]
  by (simp add: demo_wait_times wt_A_def wt_B_def)

lemma absolute_delay_cases:
  "absolute_delay None = Some 0"
  "x < 0 \<Longrightarrow> absolute_delay (Some x) = Some (- x)"
  "0 \<le> x \<Longrightarrow> absolute_delay (Some x) = Some 0"
  by (simp_all add: absolute_delay_def)

lemma absolute_delay_nonneg: "\<exists>x. absolute_delay c = Some x \<and> 0 \<le> x"
  by (cases c) (auto simp: absolute_delay_def)

lemma in_days_sign:
  "(of_int n / of_int one_day_delta < (0::rat)) = (n < 0)"
  "((0::rat) \<le> of_int n / of_int one_day_delta) = (0 \<le> n)"
  by (simp_all add: one_day_delta_def divide_less_0_iff zero_le_divide_iff)

text \<open>
  C2. In the output of \<open>get_wait_time\<close>, for the row at any position: when the estimated
  date minus the delivery date is negative (late), \<open>delay_vs_expected\<close> is the absolute
  value of that difference in days, which is the time by which the delivery exceeds the
  estimate; when the difference is not negative (on time or early) it is 0; and in every
  row, whatever its dates, it is a number that is at least 0.
\<close>

theorem delay_vs_expected_clamp:
  assumes "get_wait_time parse data is_delivered = Inr rows"
    and "i < length rows"
    and "parse_cell parse
           (order_estimated_delivery_date (wait_time_orders data is_delivered ! i)) = Inr estimated"
    and "parse_cell parse
           (order_delivered_customer_date (wait_time_orders data is_delivered ! i)) = Inr delivered"
  shows "(\<forall>e d. estimated = Some e \<and> delivered = Some d \<and> e - d < 0 \<longrightarrow>
            delay_vs_expected (rows ! i) = Some \<bar>of_int (e - d) / of_int one_day_delta\<bar>
            \<and> delay_vs_expected (rows ! i) = Some (of_int (d - e) / of_int one_day_delta))
       \<and> (\<forall>e d. estimated = Some e \<and> delivered = Some d \<and> 0 \<le> e - d \<longrightarrow>
            delay_vs_expected (rows ! i) = Some 0)
       \<and> (\<exists>x. delay_vs_expected (rows ! i) = Some x \<and> 0 \<le> x)"
proof -
  let ?ord = "wait_time_orders data is_delivered ! i"
  from get_wait_time_Inr(2)[OF assms(1,2)] assms(3,4) obtain p where
    row: "rows ! i = wait_time_of (?ord, p, delivered, estimated)"
    by auto
  then have delay: "delay_vs_expected (rows ! i) =
      absolute_delay (in_days (timestamp_sub estimated delivered))"
    by (simp add: wait_time_of_def)
  have late: "delay_vs_expected (rows ! i) = Some \<bar>of_int (e - d) / of_int one_day_delta\<bar>
      \<and> delay_vs_expected (rows ! i) = Some (of_int (d - e) / of_int one_day_delta)"
    if "estimated = Some e" "delivered = Some d" "e - d < 0" for e d
  proof -
    from that(3) have neg: "of_int (e - d) / of_int one_day_delta < (0::rat)"
      by (simp only: in_days_sign)
    have "- (of_int (e - d) / of_int one_day_delta) = (of_int (d - e) / of_int one_day_delta :: rat)"
      by (simp add: one_day_delta_def field_simps)
    with neg show ?thesis
      by (simp add: delay that(1,2) in_days_def absolute_delay_cases(2) abs_if)
  qed
  have early: "delay_vs_expected (rows ! i) = Some 0"
    if "estimated = Some e" "delivered = Some d" "0 \<le> e - d" for e d
  proof -
    from that(3) have "(0::rat) \<le> of_int (e - d) / of_int one_day_delta"
      by (simp only: in_days_sign)
    then show ?thesis
      by (simp add: delay that(1,2) in_days_def absolute_delay_cases(3))
  qed
  from late early absolute_delay_nonneg show ?thesis
    unfolding delay by blast
qed

lemma order_cells_C:
  "order_purchase_timestamp order_C = Some ''2018-01-01 00:00:00''"
  "order_delivered_customer_date order_C = Some ''2018-01-10 00:00:00''"
  "order_estimated_delivery_date order_C = Some ''2018-01-05 00:00:00''"
  "order_status order_C = Some ''delivered''"
  by (simp_all add: order_C_def)

lemma demo_wait_times_AC:
  "get_wait_time demo_parse (orders_only [order_A, order_C]) True = Inr [wt_A, wt_C]"
proof -
  have c: "wait_time_of (order_C, Some 1514764800000000000, Some 1515542400000000000,
      Some 1515110400000000000) = wt_C"
    by (simp add: wait_time_of_def order_C_def wt_C_def in_days_def absolute_delay_def
        one_day_delta_def)
  show ?thesis
    by (simp add: get_wait_time_def wait_time_orders_def orders_only_def ebind_def
        order_cells order_cells_C demo_cells wait_time_of_A c)
qed

theorem delay_vs_expected_clamp_witness:
  "get_wait_time demo_parse (orders_only [order_A, order_C]) True = Inr [wt_A, wt_C]
   \<and> delay_vs_expected ([wt_A, wt_C] ! 1) = Some 5
   \<and> delay_vs_expected ([wt_A, wt_C] ! 0) = Some 0"
proof -
  let ?d = "orders_only [order_A, order_C]"
  have os: "wait_time_orders ?d True = [order_A, order_C]"
    by (simp add: wait_time_orders_def orders_only_def order_cells order_cells_C)
  have late: "delay_vs_expected ([wt_A, wt_C] ! 1) = Some 5"
    using delay_vs_expected_clamp[OF demo_wait_times_AC, of 1 "Some 1515110400000000000"
        "Some 1515542400000000000"]
    by (simp add: os order_cells_C demo_cells one_day_delta_def)
  have early: "delay_vs_expected ([wt_A, wt_C] ! 0) = Some 0"
    using delay_vs_expected_clamp[OF demo_wait_times_AC, of 0 "Some 1515110400000000000"
        "Some 1514980800000000000"]
    by (simp add: os order_cells demo_cells)
  from late early demo_wait_times_AC show ?thesis by simp
qed

text \<open>
  C10. For a row whose delivery date is missing, the difference to the estimate is missing,
  its comparison with 0 is false, and so \<open>delay_vs_expected\<close> is 0 and not null, while
  \<open>wait_time\<close> of that row is null.
\<close>

theorem missing_delivery_date_delay_zero:
  assumes "get_wait_time parse data is_delivered = Inr rows"
    and "i < length rows"
    and "order_delivered_customer_date (wait_time_orders data is_delivered ! i) = None"
  shows "delay_vs_expected (rows ! i) = Some 0 \<and> wait_time (rows ! i) = None
       \<and> \<not> float_less (in_days (timestamp_sub estimated None)) 0"
proof -
  from get_wait_time_Inr(2)[OF assms(1,2)] assms(3) obtain p e where
    "rows ! i = wait_time_of (wait_time_orders data is_delivered ! i, p, None, e)"
    by (auto simp: parse_cell_def)
  then show ?thesis
    by (cases e; cases estimated) (simp_all add: wait_time_of_def in_days_def absolute_delay_def)
qed

theorem missing_delivery_date_delay_zero_witness:
  "get_wait_time demo_parse (orders_only [order_A, order_B]) False = Inr [wt_A, wt_B]
   \<and> order_delivered_customer_date order_B = None
   \<and> delay_vs_expected ([wt_A, wt_B] ! 1) = Some 0 \<and> wait_time ([wt_A, wt_B] ! 1) = None"
proof -
  have os: "wait_time_orders (orders_only [order_A, order_B]) False = [order_A, order_B]"
    by (simp add: wait_time_orders_def orders_only_def)
  from missing_delivery_date_delay_zero[OF demo_wait_times(2), of 1] demo_wait_times(2)
  show ?thesis
    by (simp add: os order_cells)
qed

section \<open>Products and sellers per order\<close>













section \<open>The matching table\<close>









lemma demo_matching_table:
  "get_matching_table demo_data = [matching_A1, matching_A2, matching_B]"
  by (simp add: get_matching_table_def merge_outer_def demo_data_def order_A_def order_B_def
      review_A_def item_A1_def item_A2_def matching_A1_def matching_A2_def matching_B_def)


section \<open>Loading the tables\<close>

lemma demo_csv_path: "path_join (path_join ''/repo'' ''data'') ''csv'' = ''/repo/data/csv''"
  by (simp add: path_join_def)

lemma key_from_file_name_plain:
  "filename \<noteq> ''.DS_Store'' \<Longrightarrow> \<exists>key. key_from_file_name fs filename = Inr (key, fs)"
  by (simp add: key_from_file_name_def ebind_def)

lemma load_files_fails:
  assumes "''.DS_Store'' \<notin> set names" and "file \<in> set names"
    and "isl (pd_read_csv read_csv fs (csv_path @ ''/'' @ file))"
  shows "isl (load_files read_csv csv_path names data fs)"
  using assms
proof (induction names arbitrary: data)
  case Nil
  then show ?case by simp
next
  case (Cons n names)
  from Cons.prems(1) have n: "n \<noteq> ''.DS_Store''" by auto
  from key_from_file_name_plain[OF n, of fs] obtain key where
    key: "key_from_file_name fs n = Inr (key, fs)" by blast
  show ?case
  proof (cases "pd_read_csv read_csv fs (csv_path @ ''/'' @ n)")
    case (Inl e)
    then show ?thesis by (simp add: ebind_def)
  next
    case (Inr df)
    with Cons.prems(2,3) have "file \<in> set names" by auto
    with Cons.IH[of "dict_set data key df"] Cons.prems(1,3)
    have "isl (load_files read_csv csv_path names (dict_set data key df) fs)" by simp
    with Inr key show ?thesis by (simp add: ebind_def)
  qed
qed

text \<open>
  C8 (as amended). \<open>get_data\<close> fails, with the \<open>FileNotFoundError\<close> of the directory
  listing, when the source directory does not exist. When the directory exists and lists no
  file it returns the empty dictionary. When a listed file cannot be read (and no entry is
  named \<open>.DS_Store\<close>) it fails and returns no partial dictionary.
\<close>

theorem get_data_failures:
  "(listing fs (path_join (path_join root_path ''data'') ''csv'') = None \<longrightarrow>
      get_data read_csv root_path fs
        = Inl (FileNotFoundError (path_join (path_join root_path ''data'') ''csv'')))
   \<and> (listing fs (path_join (path_join root_path ''data'') ''csv'') = Some [] \<longrightarrow>
      get_data read_csv root_path fs = Inr ([], fs))
   \<and> (\<forall>names file.
        listing fs (path_join (path_join root_path ''data'') ''csv'') = Some names
        \<and> ''.DS_Store'' \<notin> set names \<and> file \<in> set names
        \<and> isl (pd_read_csv read_csv fs
              (path_join (path_join root_path ''data'') ''csv'' @ ''/'' @ file)) \<longrightarrow>
        isl (get_data read_csv root_path fs))"
proof (intro conjI impI allI)
  let ?p = "path_join (path_join root_path ''data'') ''csv''"
  show "get_data read_csv root_path fs = Inl (FileNotFoundError ?p)" if "listing fs ?p = None"
    using that by (simp add: get_data_def os_listdir_def ebind_def)
  show "get_data read_csv root_path fs = Inr ([], fs)" if "listing fs ?p = Some []"
    using that by (simp add: get_data_def os_listdir_def ebind_def)
  show "isl (get_data read_csv root_path fs)"
    if "listing fs ?p = Some names \<and> ''.DS_Store'' \<notin> set names \<and> f \<in> set names
        \<and> isl (pd_read_csv read_csv fs (?p @ ''/'' @ f))" for names f
  proof -
    from that load_files_fails[of names f read_csv fs ?p "[]"]
    have "isl (load_files read_csv ?p names [] fs)" by simp
    with that show ?thesis by (simp add: get_data_def os_listdir_def ebind_def)
  qed
qed

theorem get_data_failures_witness:
  "get_data demo_read_csv ''/repo'' fs_missing = Inl (FileNotFoundError ''/repo/data/csv'')
   \<and> get_data demo_read_csv ''/repo'' fs_empty = Inr ([], fs_empty)
   \<and> isl (get_data demo_read_csv ''/repo'' fs_unreadable)"
proof -
  have 1: "listing fs_missing ''/repo/data/csv'' = None" by (simp add: fs_missing_def)
  have 2: "listing fs_empty ''/repo/data/csv'' = Some []" by (simp add: fs_empty_def)
  have 3: "listing fs_unreadable ''/repo/data/csv'' = Some [''orders.csv'']"
    by (simp add: fs_unreadable_def)
  have 4: "isl (pd_read_csv demo_read_csv fs_unreadable (''/repo/data/csv'' @ ''/'' @ ''orders.csv''))"
    by (simp add: pd_read_csv_def fs_unreadable_def demo_read_csv_def)
  from get_data_failures[of fs_missing "''/repo''" demo_read_csv] 1
  have a: "get_data demo_read_csv ''/repo'' fs_missing = Inl (FileNotFoundError ''/repo/data/csv'')"
    unfolding demo_csv_path by simp
  from get_data_failures[of fs_empty "''/repo''" demo_read_csv] 2
  have b: "get_data demo_read_csv ''/repo'' fs_empty = Inr ([], fs_empty)"
    unfolding demo_csv_path by simp
  from get_data_failures[of fs_unreadable "''/repo''" demo_read_csv]
  have "listing fs_unreadable ''/repo/data/csv'' = Some [''orders.csv'']
        \<and> ''.DS_Store'' \<notin> set [''orders.csv''] \<and> ''orders.csv'' \<in> set [''orders.csv'']
        \<and> isl (pd_read_csv demo_read_csv fs_unreadable (''/repo/data/csv'' @ ''/'' @ ''orders.csv''))
      \<longrightarrow> isl (get_data demo_read_csv ''/repo'' fs_unreadable)"
    unfolding demo_csv_path by fast
  with 3 4 have c: "isl (get_data demo_read_csv ''/repo'' fs_unreadable)" by simp
  from a b c show ?thesis by simp
qed

text \<open>
  The claim as stated fails on a source directory that exists and is empty: the loader
  returns the empty dictionary and raises nothing.
\<close>

theorem get_data_empty_directory_counterexample:
  "os_listdir fs_empty ''/repo/data/csv'' = Inr []
   \<and> get_data demo_read_csv ''/repo'' fs_empty = Inr ([], fs_empty)"
  by (simp add: get_data_def os_listdir_def ebind_def path_join_def fs_empty_def)

text \<open>
  A directory with two tables: the keys are the file names without the prefix \<open>olist_\<close>
  and the suffixes \<open>_dataset.csv\<close> and \<open>.csv\<close>.
\<close>

lemma get_data_two_tables:
  "get_data demo_read_csv ''/repo'' fs_two_tables
     = Inr ([(''orders'', ''o''), (''sellers'', ''s'')], fs_two_tables)"
  by (simp add: get_data_def os_listdir_def ebind_def path_join_def fs_two_tables_def
      pd_read_csv_def demo_read_csv_def key_from_file_name_def)

section \<open>The training table\<close>

lemma set_merge_inner:
  "set (merge_inner kl kr left right) = {(l, r). l \<in> set left \<and> r \<in> set right \<and> kr r = kl l}"
  by (auto simp: merge_inner_def)

lemma merged_features_iff:
  "t \<in> set (merged_features wait_times data) \<longleftrightarrow>
     (\<exists>w r p s f. w \<in> set wait_times \<and> r \<in> set (get_review_score data)
        \<and> p \<in> set (get_number_products data) \<and> s \<in> set (get_number_sellers data)
        \<and> f \<in> set (get_price_and_freight data)
        \<and> rs_order_id r = w_order_id w \<and> np_order_id p = w_order_id w
        \<and> ns_order_id s = w_order_id w \<and> pf_order_id f = w_order_id w
        \<and> t = training_row_of ((((w, r), p), s), f))"
  unfolding merged_features_def set_map set_merge_inner
  by (auto simp del: training_row_of.simps) blast

lemma get_training_data_Inr:
  assumes "get_training_data parse hav data reloaded is_delivered wd = Inr rows"
  shows "\<exists>wait_times. get_wait_time parse data is_delivered = Inr wait_times
    \<and> rows = dropna (if wd
        then map with_distance
               (merge_inner t_order_id d_order_id (merged_features wait_times data)
                 (get_distance_seller_customer hav data reloaded))
        else merged_features wait_times data)"
  using assms by (auto simp: get_training_data_def ebind_def Let_def split: sum.splits)


lemma dropna_iff: "t \<in> set (dropna rows) \<longleftrightarrow> t \<in> set rows \<and> \<not> has_null t"
  by (auto simp: dropna_def)



lemma demo_data_tables:
  "orders demo_data = [order_A, order_B]"
  "order_items demo_data = [item_A1, item_A2]"
  "order_reviews demo_data = [review_A]"
  "sellers demo_data = [seller_1, seller_2]"
  "customers demo_data = [customer_1, customer_2]"
  "geolocation demo_data = demo_geolocation"
  by (simp_all add: demo_data_def)

lemma demo_data_wait_times:
  "get_wait_time demo_parse demo_data True = Inr [wt_A]"
  "get_wait_time demo_parse demo_data False = Inr [wt_A, wt_B]"
  by (simp_all add: get_wait_time_def wait_time_orders_def demo_data_tables ebind_def
      order_cells demo_cells wait_time_of_A wait_time_of_B)

lemma demo_data_review_score:
  "get_review_score demo_data = [\<lparr> rs_order_id = Some ''A'', dim_is_five_star = 1,
     dim_is_one_star = 0, review_score = Some 5 \<rparr>]"
  by (simp add: get_review_score_def demo_data_tables review_A_def dim_five_star_def
      dim_one_star_def)

lemma demo_data_items:
  "get_number_products demo_data = [\<lparr> np_order_id = Some ''A'', number_of_products = 2 \<rparr>]"
  "get_number_sellers demo_data = [\<lparr> ns_order_id = Some ''A'', number_of_sellers = 2 \<rparr>]"
  "get_price_and_freight demo_data
     = [\<lparr> pf_order_id = Some ''A'', price = 30, freight_value = 10 \<rparr>]"
  by (simp_all add: get_number_products_def get_number_sellers_def get_price_and_freight_def
      demo_data_tables group_keys_def group_rows_def item_A1_def item_A2_def)

lemma demo_merged_features:
  "merged_features [wt_A] demo_data = [training_A]"
  unfolding merged_features_def demo_data_review_score demo_data_items
  by (simp add: merge_inner_def wt_A_def training_A_def)


lemma demo_geo_first:
  "geo_first demo_geolocation =
     [geo_of 1000 (Some 0) (Some 0), geo_of 2000 (Some 0) (Some 8), geo_of 3000 (Some 0) (Some 3)]"
  by (simp add: geo_first_def demo_geolocation_def group_keys_def group_rows_def geo_of_def)

lemma demo_sellers_geo:
  "map seller_geo (merge_left seller_zip_code_prefix geolocation_zip_code_prefix
      [seller_1, seller_2]
      [geo_of 1000 (Some 0) (Some 0), geo_of 2000 (Some 0) (Some 8), geo_of 3000 (Some 0) (Some 3)])
     = [located_s1, located_s2]"
  by (simp add: merge_left_def seller_1_def seller_2_def geo_of_def located_s1_def located_s2_def)

lemma demo_customers_geo:
  "map customer_geo (merge_left customer_zip_code_prefix geolocation_zip_code_prefix
      [customer_1, customer_2]
      [geo_of 1000 (Some 0) (Some 0), geo_of 2000 (Some 0) (Some 8), geo_of 3000 (Some 0) (Some 3)])
     = [located_c1, located_c2]"
  by (simp add: merge_left_def customer_1_def customer_2_def geo_of_def located_c1_def
      located_c2_def)

lemma demo_ids:
  "m_seller_id matching_A1 = Some ''s1''" "m_seller_id matching_A2 = Some ''s2''"
  "m_seller_id matching_B = None"
  "m_customer_id matching_A1 = Some ''c1''" "m_customer_id matching_A2 = Some ''c1''"
  "m_order_id matching_A1 = Some ''A''" "m_order_id matching_A2 = Some ''A''"
  "l_id located_s1 = Some ''s1''" "l_id located_s2 = Some ''s2''" "l_id located_c1 = Some ''c1''"
  "l_id located_c2 = Some ''c2''"
  by (simp_all add: matching_A1_def matching_A2_def matching_B_def located_s1_def
      located_s2_def located_c1_def located_c2_def)

lemma demo_matching_geo_merged:
  "matching_geo_merged demo_data demo_data
     = [((matching_A1, located_s1), located_c1), ((matching_A2, located_s2), located_c1)]"
  unfolding matching_geo_merged_def Let_def demo_matching_table demo_data_tables demo_geo_first
    demo_sellers_geo demo_customers_geo
  by (simp add: merge_inner_def demo_ids)

lemma demo_complete:
  "matching_complete matching_A1" "matching_complete matching_A2"
  "located_complete located_s1" "located_complete located_s2" "located_complete located_c1"
  by (simp_all add: matching_complete_def located_complete_def matching_A1_def matching_A2_def
      located_s1_def located_s2_def located_c1_def)

lemma demo_matching_geo:
  "matching_geo demo_data demo_data
     = [((matching_A1, located_s1), located_c1), ((matching_A2, located_s2), located_c1)]"
  by (simp add: matching_geo_def demo_matching_geo_merged demo_complete)

lemma demo_row_distances:
  "row_distance demo_distance ((matching_A1, located_s1), located_c1) = Some 3"
  "row_distance demo_distance ((matching_A2, located_s2), located_c1) = Some 5"
  by (simp_all add: located_s1_def located_s2_def located_c1_def demo_distance_def)

lemma demo_distance_frame:
  "get_distance_seller_customer demo_distance demo_data demo_data
     = [\<lparr> d_order_id = Some ''A'', distance_seller_customer = Some 4 \<rparr>]"
  by (simp add: get_distance_seller_customer_def demo_matching_geo Let_def group_keys_def
      group_rows_def matching_geo_order_id_def demo_ids demo_row_distances mean_cells_def
      del: row_distance.simps)

lemma demo_no_null:
  "\<not> has_null training_A" "\<not> has_null training_A_distance"
  "t_order_id training_A = Some ''A''"
  by (simp_all add: has_null_def training_A_def training_A_distance_def del: not_None_eq)

lemma demo_training_data:
  "get_training_data demo_parse demo_distance demo_data demo_data True True
     = Inr [training_A_distance]"
  "get_training_data demo_parse demo_distance demo_data demo_data True False
     = Inr [training_A]"
  by (simp_all add: get_training_data_def demo_data_wait_times ebind_def demo_merged_features
      demo_distance_frame merge_inner_def dropna_def demo_no_null
      training_A_distance_def[symmetric])



lemma training_row_source:
  assumes "get_training_data parse hav data reloaded is_delivered wd = Inr rows"
    and "t \<in> set rows"
  shows "\<exists>wts w. get_wait_time parse data is_delivered = Inr wts \<and> w \<in> set wts
    \<and> t_order_id t = w_order_id w \<and> t_wait_time t = wait_time w
    \<and> t_delay_vs_expected t = delay_vs_expected w \<and> \<not> has_null t"
proof -
  from get_training_data_Inr[OF assms(1)] obtain wts where
    wts: "get_wait_time parse data is_delivered = Inr wts" and
    rows: "rows = dropna (if wd
        then map with_distance
               (merge_inner t_order_id d_order_id (merged_features wts data)
                 (get_distance_seller_customer hav data reloaded))
        else merged_features wts data)"
    by blast
  from assms(2) have nn: "\<not> has_null t" by (simp add: rows dropna_iff)
  have "\<exists>u\<in>set (merged_features wts data). t_order_id t = t_order_id u
      \<and> t_wait_time t = t_wait_time u \<and> t_delay_vs_expected t = t_delay_vs_expected u"
  proof (cases wd)
    case True
    with assms(2) obtain u d where "u \<in> set (merged_features wts data)" "t = with_distance (u, d)"
      by (auto simp: rows dropna_iff set_merge_inner)
    then show ?thesis by auto
  next
    case False
    with assms(2) show ?thesis by (auto simp: rows dropna_iff)
  qed
  then obtain u where u: "u \<in> set (merged_features wts data)" "t_order_id t = t_order_id u"
      "t_wait_time t = t_wait_time u" "t_delay_vs_expected t = t_delay_vs_expected u"
    by blast
  from u(1)[unfolded merged_features_iff] obtain w r p s f where
    "w \<in> set wts" "u = training_row_of ((((w, r), p), s), f)" by blast
  with u(2-4) wts nn show ?thesis by auto
qed

text \<open>
  C5 (as amended). For every row of the training table produced with \<open>is_delivered\<close>,
  \<open>wait_time\<close> is not null: it is the time in days from the purchase to the delivery of an
  order with status \<open>delivered\<close> and the row's \<open>order_id\<close>, both timestamps being
  present. It is at least 0 exactly when that delivery is not earlier than the purchase;
  the code compares neither.
\<close>

theorem training_wait_time_of_delivered_order:
  assumes "get_training_data parse hav data reloaded True wd = Inr rows"
    and "t \<in> set rows"
  shows "\<exists>ord\<in>set (orders data). \<exists>p d.
      order_status ord = Some ''delivered'' \<and> o_order_id ord = t_order_id t
      \<and> parse_cell parse (order_purchase_timestamp ord) = Inr (Some p)
      \<and> parse_cell parse (order_delivered_customer_date ord) = Inr (Some d)
      \<and> t_wait_time t = Some (of_int (d - p) / of_int one_day_delta)
      \<and> ((0::rat) \<le> of_int (d - p) / of_int one_day_delta) = (p \<le> d)"
proof -
  from training_row_source[OF assms] obtain wts w where
    wts: "get_wait_time parse data True = Inr wts" and w: "w \<in> set wts"
    and eq: "t_order_id t = w_order_id w" "t_wait_time t = wait_time w"
    and nn: "\<not> has_null t"
    by blast
  from w obtain i where i: "i < length wts" "w = wts ! i" by (auto simp: in_set_conv_nth)
  let ?ord = "wait_time_orders data True ! i"
  from get_wait_time_Inr[OF wts] i obtain p d e where
    p: "parse_cell parse (order_purchase_timestamp ?ord) = Inr p" and
    d: "parse_cell parse (order_delivered_customer_date ?ord) = Inr d" and
    row: "w = wait_time_of (?ord, p, d, e)" and len: "i < length (wait_time_orders data True)"
    by metis
  from len have "?ord \<in> set (wait_time_orders data True)" by simp
  then have ord: "?ord \<in> set (orders data)" "order_status ?ord = Some ''delivered''"
    by (simp_all add: wait_time_orders_def)
  from nn eq(2) row have "in_days (timestamp_sub d p) \<noteq> None"
    by (simp add: has_null_def wait_time_of_def)
  then obtain d' p' where dp: "d = Some d'" "p = Some p'"
    by (cases d; cases p) (simp_all add: in_days_def)
  have "t_wait_time t = Some (of_int (d' - p') / of_int one_day_delta)"
    by (simp add: eq(2) row wait_time_of_def dp in_days_def)
  moreover have "o_order_id ?ord = t_order_id t"
    by (simp add: eq(1) row wait_time_of_def)
  moreover have "((0::rat) \<le> of_int (d' - p') / of_int one_day_delta) = (p' \<le> d')"
    by (simp only: in_days_sign) simp
  ultimately show ?thesis using ord p d dp by blast
qed


theorem training_wait_time_of_delivered_order_witness:
  "get_training_data demo_parse demo_distance demo_data demo_data True False = Inr [training_A]
   \<and> (\<exists>ord p d. (ord = order_A \<or> ord = order_B)
        \<and> order_status ord = Some ''delivered'' \<and> o_order_id ord = t_order_id training_A
        \<and> parse_cell demo_parse (order_purchase_timestamp ord) = Inr (Some p)
        \<and> parse_cell demo_parse (order_delivered_customer_date ord) = Inr (Some d)
        \<and> t_wait_time training_A = Some (of_int (d - p) / of_int one_day_delta)
        \<and> ((0::rat) \<le> of_int (d - p) / of_int one_day_delta) = (p \<le> d))"
proof -
  have "training_A \<in> set [training_A]" by simp
  from training_wait_time_of_delivered_order[OF demo_training_data(2) this]
  have "\<exists>ord p d. (ord = order_A \<or> ord = order_B)
        \<and> order_status ord = Some ''delivered'' \<and> o_order_id ord = t_order_id training_A
        \<and> parse_cell demo_parse (order_purchase_timestamp ord) = Inr (Some p)
        \<and> parse_cell demo_parse (order_delivered_customer_date ord) = Inr (Some d)
        \<and> t_wait_time training_A = Some (of_int (d - p) / of_int one_day_delta)
        \<and> ((0::rat) \<le> of_int (d - p) / of_int one_day_delta) = (p \<le> d)"
    unfolding demo_data_tables by auto
  with demo_training_data(2) show ?thesis by (rule conjI)
qed

lemma data_D_wait_times: "get_wait_time demo_parse data_D True = Inr [wt_D]"
proof -
  have cells: "order_purchase_timestamp order_D = Some ''2018-01-05 00:00:00''"
    "order_delivered_customer_date order_D = Some ''2018-01-01 00:00:00''"
    "order_estimated_delivery_date order_D = Some ''2018-01-10 00:00:00''"
    "order_status order_D = Some ''delivered''"
    by (simp_all add: order_D_def)
  have row: "wait_time_of (order_D, Some 1515110400000000000, Some 1514764800000000000,
      Some 1515542400000000000) = wt_D"
    by (simp add: wait_time_of_def order_D_def wt_D_def in_days_def absolute_delay_def
        one_day_delta_def)
  show ?thesis
    by (simp add: get_wait_time_def wait_time_orders_def data_D_def ebind_def cells demo_cells
        row)
qed

lemma data_D_merged_features: "merged_features [wt_D] data_D = [training_D]"
  by (simp add: merged_features_def get_review_score_def get_number_products_def
      get_number_sellers_def get_price_and_freight_def data_D_def group_keys_def group_rows_def
      item_D_def review_D_def dim_five_star_def dim_one_star_def merge_inner_def wt_D_def
      training_D_def)

text \<open>
  The claim as stated fails on an order with status \<open>delivered\<close> whose delivery date is
  earlier than its purchase date: the row is kept, with a negative \<open>wait_time\<close>.
\<close>

theorem training_wait_time_negative_counterexample:
  "get_training_data demo_parse demo_distance data_D data_D True False = Inr [training_D]
   \<and> t_wait_time training_D = Some (- 4)
   \<and> \<not> (0::rat) \<le> - 4"
proof -
  have "\<not> has_null training_D"
    by (simp add: has_null_def training_D_def del: not_None_eq)
  then have "get_training_data demo_parse demo_distance data_D data_D True False
      = Inr [training_D]"
    by (simp add: get_training_data_def data_D_wait_times ebind_def data_D_merged_features
        dropna_def)
  then show ?thesis by (simp add: training_D_def)
qed


lemma merge_inner_Nil: "merge_inner kl kr [] right = []"
  by (simp add: merge_inner_def)

lemma merge_inner_empty_iff:
  "merge_inner kl kr left right = [] \<longleftrightarrow> set (map kl left) \<inter> set (map kr right) = {}"
proof -
  have "merge_inner kl kr left right = [] \<longleftrightarrow> set (merge_inner kl kr left right) = {}"
    by simp
  also have "\<dots> \<longleftrightarrow> (\<forall>l\<in>set left. \<forall>r\<in>set right. kr r \<noteq> kl l)"
    unfolding set_merge_inner by auto
  also have "\<dots> \<longleftrightarrow> set (map kl left) \<inter> set (map kr right) = {}"
    by (fastforce simp: disjoint_iff)
  finally show ?thesis .
qed

lemma merged_features_joins:
  "merged_features wait_times data = map training_row_of (join_price_and_freight wait_times data)"
  by (simp add: merged_features_def join_price_and_freight_def join_number_sellers_def
      join_number_products_def join_review_score_def)

text \<open>
  C9 (as amended). When an inner join of \<open>get_training_data\<close> collapses to zero rows
  (the merge with the review scores, with the product counts, with the seller counts, with
  the prices or, when the distance is asked for, with the distances), the call raises nothing
  and returns the empty table. Each of these joins is empty exactly when the \<open>order_id\<close>
  key sets of the two tables it joins are disjoint.
\<close>

theorem empty_join_returns_empty_table:
  assumes "get_wait_time parse data is_delivered = Inr wait_times"
    and "join_review_score wait_times data = []
       \<or> join_number_products wait_times data = []
       \<or> join_number_sellers wait_times data = []
       \<or> join_price_and_freight wait_times data = []
       \<or> (wd \<and> join_distance hav wait_times data reloaded = [])"
  shows "get_training_data parse hav data reloaded is_delivered wd = Inr []
    \<and> (join_review_score wait_times data = []) =
        (set (map w_order_id wait_times) \<inter> set (map rs_order_id (get_review_score data)) = {})
    \<and> (join_number_products wait_times data = []) =
        (set (map (\<lambda>x. w_order_id (fst x)) (join_review_score wait_times data))
           \<inter> set (map np_order_id (get_number_products data)) = {})
    \<and> (join_number_sellers wait_times data = []) =
        (set (map (\<lambda>x. w_order_id (fst (fst x))) (join_number_products wait_times data))
           \<inter> set (map ns_order_id (get_number_sellers data)) = {})
    \<and> (join_price_and_freight wait_times data = []) =
        (set (map (\<lambda>x. w_order_id (fst (fst (fst x)))) (join_number_sellers wait_times data))
           \<inter> set (map pf_order_id (get_price_and_freight data)) = {})
    \<and> (join_distance hav wait_times data reloaded = []) =
        (set (map t_order_id (merged_features wait_times data))
           \<inter> set (map d_order_id (get_distance_seller_customer hav data reloaded)) = {})"
proof -
  have rows: "get_training_data parse hav data reloaded is_delivered wd
      = Inr (dropna (if wd then map with_distance (join_distance hav wait_times data reloaded)
          else merged_features wait_times data))"
    by (simp add: get_training_data_def assms(1) ebind_def Let_def join_distance_def)
  have chain: "join_price_and_freight wait_times data = []"
    if "join_review_score wait_times data = []
       \<or> join_number_products wait_times data = []
       \<or> join_number_sellers wait_times data = []
       \<or> join_price_and_freight wait_times data = []"
    using that
    by (auto simp: join_price_and_freight_def join_number_sellers_def
        join_number_products_def merge_inner_Nil)
  have "(if wd then map with_distance (join_distance hav wait_times data reloaded)
          else merged_features wait_times data) = []"
  proof (cases "wd \<and> join_distance hav wait_times data reloaded = []")
    case True
    then show ?thesis by simp
  next
    case False
    with assms(2) chain have "join_price_and_freight wait_times data = []" by blast
    then have "merged_features wait_times data = []" by (simp add: merged_features_joins)
    then show ?thesis by (simp add: join_distance_def merge_inner_Nil)
  qed
  then have "get_training_data parse hav data reloaded is_delivered wd = Inr []"
    by (simp add: rows dropna_def)
  then show ?thesis
    unfolding join_review_score_def join_number_products_def join_number_sellers_def
      join_price_and_freight_def join_distance_def
    by (simp only: merge_inner_empty_iff simp_thms)
qed

lemma data_disjoint_wait_times: "get_wait_time demo_parse data_disjoint True = Inr [wt_A]"
  by (simp add: get_wait_time_def wait_time_orders_def data_disjoint_def ebind_def
      order_cells demo_cells wait_time_of_A)

lemma data_second_join_wait_times:
  "get_wait_time demo_parse data_second_join True = Inr [wt_A, wt_C]"
proof -
  have c: "wait_time_of (order_C, Some 1514764800000000000, Some 1515542400000000000,
      Some 1515110400000000000) = wt_C"
    by (simp add: wait_time_of_def order_C_def wt_C_def in_days_def absolute_delay_def
        one_day_delta_def)
  show ?thesis
    by (simp add: get_wait_time_def wait_time_orders_def data_second_join_def ebind_def
        order_cells order_cells_C demo_cells wait_time_of_A c)
qed

lemma data_second_join_joins:
  "join_review_score [wt_A, wt_C] data_second_join
     = [(wt_A, \<lparr> rs_order_id = Some ''A'', dim_is_five_star = 1, dim_is_one_star = 0,
                  review_score = Some 5 \<rparr>)]"
  "join_number_products [wt_A, wt_C] data_second_join = []"
proof -
  show 1: "join_review_score [wt_A, wt_C] data_second_join
     = [(wt_A, \<lparr> rs_order_id = Some ''A'', dim_is_five_star = 1, dim_is_one_star = 0,
                  review_score = Some 5 \<rparr>)]"
    by (simp add: join_review_score_def get_review_score_def data_second_join_def
        review_A_def dim_five_star_def dim_one_star_def merge_inner_def wt_A_def wt_C_def)
  have "get_number_products data_second_join
      = [\<lparr> np_order_id = Some ''C'', number_of_products = 1 \<rparr>]"
    by (simp add: get_number_products_def data_second_join_def group_keys_def group_rows_def
        item_C_def)
  then show "join_number_products [wt_A, wt_C] data_second_join = []"
    unfolding join_number_products_def 1
    by (simp add: merge_inner_def wt_A_def)
qed

theorem empty_join_returns_empty_table_witness:
  "get_wait_time demo_parse data_second_join True = Inr [wt_A, wt_C]
   \<and> join_review_score [wt_A, wt_C] data_second_join \<noteq> []
   \<and> join_number_products [wt_A, wt_C] data_second_join = []
   \<and> get_training_data demo_parse demo_distance data_second_join data_second_join True False
       = Inr []"
proof -
  have collapse: "join_review_score [wt_A, wt_C] data_second_join = []
       \<or> join_number_products [wt_A, wt_C] data_second_join = []
       \<or> join_number_sellers [wt_A, wt_C] data_second_join = []
       \<or> join_price_and_freight [wt_A, wt_C] data_second_join = []
       \<or> (False \<and> join_distance demo_distance [wt_A, wt_C] data_second_join
              data_second_join = [])"
    by (simp add: data_second_join_joins(2))
  from empty_join_returns_empty_table[OF data_second_join_wait_times collapse]
  have "get_training_data demo_parse demo_distance data_second_join data_second_join True False
      = Inr []"
    by (rule conjunct1)
  with data_second_join_wait_times data_second_join_joins show ?thesis by simp
qed

text \<open>
  The claim as stated fails on orders and reviews with disjoint order ids: the first inner
  join is empty, and the call returns the empty table instead of failing.
\<close>

theorem empty_join_no_error_counterexample:
  "merge_inner w_order_id rs_order_id [wt_A] (get_review_score data_disjoint) = []
   \<and> get_training_data demo_parse demo_distance data_disjoint data_disjoint True False = Inr []"
proof -
  have a: "merge_inner w_order_id rs_order_id [wt_A] (get_review_score data_disjoint) = []"
    by (simp add: merge_inner_def get_review_score_def data_disjoint_def review_D_def wt_A_def)
  then have "merged_features [wt_A] data_disjoint = []"
    by (simp add: merged_features_def merge_inner_def)
  then have "get_training_data demo_parse demo_distance data_disjoint data_disjoint True False
      = Inr []"
    by (simp add: get_training_data_def data_disjoint_wait_times ebind_def dropna_def)
  with a show ?thesis by simp
qed

section \<open>The distance between seller and customer\<close>



















end
